theory Spec2Isabelle
  imports Complex_Main
begin

section \<open>Text: the string operations of the analysis script\<close>

text \<open>
  The script \<^verbatim>\<open>q1_2025_analysis.py\<close> reads one table of issues and derives charts from it.
  A cell of a text column is a \<^typ>\<open>string option\<close>: \<open>None\<close> is the missing value (NaN)
  that \<^verbatim>\<open>pandas.read_csv\<close> leaves for an empty cell. Text is the list of the bytes of its
  UTF-8 encoding. \<open>lower\<close> and \<open>upper\<close> change the case of the letters \<open>A\<close> to \<open>Z\<close>
  and leave every other byte as it is.
\<close>

definition ascii_uppercase :: string where
  "ascii_uppercase = ''ABCDEFGHIJKLMNOPQRSTUVWXYZ''"

definition ascii_lowercase :: string where
  "ascii_lowercase = ''abcdefghijklmnopqrstuvwxyz''"

definition lower_char :: "char \<Rightarrow> char" where
  "lower_char c =
     (case map_of (zip ascii_uppercase ascii_lowercase) c of Some l \<Rightarrow> l | None \<Rightarrow> c)"

definition upper_char :: "char \<Rightarrow> char" where
  "upper_char c =
     (case map_of (zip ascii_lowercase ascii_uppercase) c of Some l \<Rightarrow> l | None \<Rightarrow> c)"

definition lower :: "string \<Rightarrow> string" where
  \<comment> \<open>\<^verbatim>\<open>s.lower()\<close>\<close>
  "lower s = map lower_char s"

definition upper :: "string \<Rightarrow> string" where
  \<comment> \<open>\<^verbatim>\<open>s.upper()\<close>\<close>
  "upper s = map upper_char s"

fun startswith :: "string \<Rightarrow> string \<Rightarrow> bool" where
  \<comment> \<open>\<^verbatim>\<open>s.startswith(p)\<close>\<close>
  "startswith s [] = True"
| "startswith [] (p # ps) = False"
| "startswith (c # cs) (p # ps) = (c = p \<and> startswith cs ps)"

fun py_in :: "string \<Rightarrow> string \<Rightarrow> bool" where
  \<comment> \<open>\<^verbatim>\<open>pat in s\<close>: \<open>pat\<close> occurs in \<open>s\<close> as a contiguous run of characters\<close>
  "py_in pat [] = (pat = [])"
| "py_in pat (c # cs) = (startswith (c # cs) pat \<or> py_in pat cs)"

definition str :: "string option \<Rightarrow> string" where
  \<comment> \<open>\<^verbatim>\<open>str(cell)\<close>: the text itself, and \<^verbatim>\<open>'nan'\<close> for the missing value\<close>
  "str cell = (case cell of None \<Rightarrow> ''nan'' | Some s \<Rightarrow> s)"

text \<open>
  \<^verbatim>\<open>Series.str.contains(pat, case=False, na=False)\<close> searches each cell with the regular
  expression \<open>pat\<close> under \<^verbatim>\<open>re.IGNORECASE\<close>. For a pattern of ASCII characters without
  operators, a pattern character matches the characters whose lower case is its lower
  case, and besides them the long s (U+017F) for \<open>s\<close> and the dotless i (U+0131) for \<open>i\<close>;
  the Kelvin sign (U+212A) has the lower case \<open>k\<close> and the dotted capital I (U+0130) the
  lower case \<open>i\<close>.
\<close>

definition long_s :: string where
  "long_s = [CHR 0xC5, CHR 0xBF]"

definition kelvin_sign :: string where
  "kelvin_sign = [CHR 0xE2, CHR 0x84, CHR 0xAA]"

definition dotless_i :: string where
  "dotless_i = [CHR 0xC4, CHR 0xB1]"

definition dotted_I :: string where
  "dotted_I = [CHR 0xC4, CHR 0xB0]"

definition ignorecase_variants :: "char \<Rightarrow> string list" where
  \<comment> \<open>the characters, in UTF-8, that the pattern character \<open>p\<close> matches\<close>
  "ignorecase_variants p =
     (let l = lower_char p
      in [[l], [upper_char l]]
         @ (if l = CHR ''s'' then [long_s] else [])
         @ (if l = CHR ''k'' then [kelvin_sign] else [])
         @ (if l = CHR ''i'' then [dotless_i, dotted_I] else []))"

fun re_match_at :: "string \<Rightarrow> string \<Rightarrow> bool" where
  \<comment> \<open>the pattern matches at the start of the text\<close>
  "re_match_at [] s = True"
| "re_match_at (p # ps) s =
     list_ex (\<lambda>v. startswith s v \<and> re_match_at ps (drop (length v) s)) (ignorecase_variants p)"

fun re_search :: "string \<Rightarrow> string \<Rightarrow> bool" where
  \<comment> \<open>the pattern matches somewhere in the text\<close>
  "re_search pat [] = re_match_at pat []"
| "re_search pat (c # cs) = (re_match_at pat (c # cs) \<or> re_search pat cs)"

definition str_contains :: "string \<Rightarrow> string option \<Rightarrow> bool" where
  \<comment> \<open>one cell of the result; a missing cell gives the value of \<open>na\<close>\<close>
  "str_contains pat cell = (case cell of None \<Rightarrow> False | Some s \<Rightarrow> re_search pat s)"

text \<open>
  The notion the specification uses: \<open>pat\<close> occurs in \<open>s\<close> up to the case of letters.
\<close>

definition ci_contains :: "string \<Rightarrow> string \<Rightarrow> bool" where
  "ci_contains pat s =
     (\<exists>u v w. s = u @ v @ w \<and> map lower_char v = map lower_char pat)"

text \<open>
  The same notion over all of Unicode, by simple case folding: \<open>pat\<close> occurs in \<open>s\<close>
  when \<open>s\<close> has a run of characters that fold, one by one, to the characters of \<open>pat\<close>.
  The characters that fold to an ASCII letter are the letter, its capital, and the long s
  for \<open>s\<close> and the Kelvin sign for \<open>k\<close>.
\<close>

definition fold_variants :: "char \<Rightarrow> string list" where
  "fold_variants p =
     (let l = lower_char p
      in [[l], [upper_char l]]
         @ (if l = CHR ''s'' then [long_s] else [])
         @ (if l = CHR ''k'' then [kelvin_sign] else []))"

definition ci_occurs :: "string \<Rightarrow> string \<Rightarrow> bool" where
  "ci_occurs pat s =
     (\<exists>u vs w. s = u @ concat vs @ w
        \<and> list_all2 (\<lambda>v p. v \<in> set (fold_variants p)) vs pat)"

section \<open>The classifier\<close>

text \<open>
  \<^verbatim>\<open>get_task_type\<close> is defined twice in the script, once inside
  \<^verbatim>\<open>task_type_split_by_service\<close> (lines 181 to 190) and once inside
  \<^verbatim>\<open>task_distribution_by_type\<close> (lines 235 to 244).
\<close>

definition get_task_type :: "string option \<Rightarrow> string" where
  \<comment> \<open>the one of \<^verbatim>\<open>task_type_split_by_service\<close>\<close>
  "get_task_type labels =
     (let labels_lower = lower (str labels) in
      if py_in ''bug'' labels_lower \<or> py_in ''confirmed-bug'' labels_lower then ''Bug''
      else if py_in ''service-request'' labels_lower then ''Service Request''
      else if py_in ''infra-related'' labels_lower then ''Infrastructure''
      else ''Feature/Enhancement'')"

definition get_task_type_dist :: "string option \<Rightarrow> string" where
  \<comment> \<open>the one of \<^verbatim>\<open>task_distribution_by_type\<close>\<close>
  "get_task_type_dist labels =
     (let labels_lower = lower (str labels) in
      if py_in ''bug'' labels_lower \<or> py_in ''confirmed-bug'' labels_lower then ''Bug''
      else if py_in ''service-request'' labels_lower then ''Service Request''
      else if py_in ''infra-related'' labels_lower then ''Infrastructure''
      else ''Feature/Enhancement'')"

section \<open>The table of issues\<close>

text \<open>
  A data frame is the list of its rows, in the order of the file. \<open>csv_row\<close> is a row as
  \<^verbatim>\<open>pandas.read_csv\<close> delivers it, with the four date columns still text; \<open>issue\<close> is a
  row after \<^verbatim>\<open>load_data\<close>, with the dates converted and the derived columns. \<open>None\<close> is
  the missing value of a column (NaN, NaT, or Python's \<open>None\<close> in the
  \<^verbatim>\<open>Cycle Time\<close> column); \<open>Task_Type = None\<close> stands for a frame that has no
  \<^verbatim>\<open>Task Type\<close> column yet. The \<^verbatim>\<open>Estimate\<close> column holds numbers, and \<open>None\<close> where
  \<^verbatim>\<open>pandas.to_numeric(errors='coerce')\<close> gives NaN. A label cell is text or missing. A
  timestamp is an instant in nanoseconds since 1970-01-01T00:00:00Z. A number is the
  rational value of a float64, or one of the infinities or NaN.
\<close>

type_synonym timestamp = int

record 'id csv_row =
  csv_ID :: 'id
  csv_Assignee :: "string option"
  csv_Labels :: "string option"
  csv_Status :: "string option"
  csv_Priority :: "string option"
  csv_Estimate :: "rat option"
  csv_Cycle_Name :: "string option"
  csv_Created :: "string option"
  csv_Completed :: "string option"
  csv_Updated :: "string option"
  csv_Started :: "string option"

record 'id issue =
  ID :: 'id
  Assignee :: "string option"
  Labels :: "string option"
  Status :: "string option"
  Priority :: "string option"
  Estimate :: "rat option"
  Cycle_Name :: "string option"
  Created :: "timestamp option"
  Completed :: "timestamp option"
  Updated :: "timestamp option"
  Started :: "timestamp option"
  Cycle_Time :: "rat option"
  Task_Type :: "string option"

datatype exn_class =
  FileNotFoundError | PermissionError | IsADirectoryError | UnicodeDecodeError
  | EmptyDataError | ParserError | ValueError | TypeError | AttributeError | KeyError

datatype exn = Exn (exn_class: exn_class) (exn_message: string)

datatype num = Val rat | Inf | NegInf | NaN

datatype chart_data =
  Counts "string \<Rightarrow> nat option"
  | Reindexed "(string \<times> nat) list"
  | Values "string \<Rightarrow> num option"
  | Rows "(string \<times> rat) list"
  | Grouped "string \<Rightarrow> (rat \<times> rat) option"

datatype chart_kind = Bar | Pie

datatype figure = Figure chart_kind string chart_data

text \<open>
  What the script shows: the calls of the display surface (\<^verbatim>\<open>streamlit\<close>) and of
  \<^verbatim>\<open>print\<close>, in order.
\<close>

datatype event =
  Title string | Error string | Warning string | Header string | Columns nat
  | Plotly_chart figure | Print string

subsection \<open>Arithmetic in float64\<close>

text \<open>
  \<open>round64 x\<close> is the float64 nearest to \<open>x\<close>, ties going to the even significand
  (53 bits, exponents down to the subnormal range); \<open>float64\<close> adds the overflow to an
  infinity. A quotient or a product of the script (lines 23 and 166) is the exact
  operation followed by this rounding, and an integer enters it rounded as well. Sums and
  means over a column are taken exactly: the script does not fix the order in which
  \<^verbatim>\<open>pandas\<close> adds.
\<close>

function bitlen :: "int \<Rightarrow> int" where
  "bitlen n = (if n \<le> 0 then 0 else 1 + bitlen (n div 2))"
  by pat_completeness auto
termination
  by (relation "measure nat") auto

definition pow2 :: "int \<Rightarrow> rat" where
  "pow2 e = (if 0 \<le> e then 2 ^ nat e else 1 / 2 ^ nat (- e))"

definition round_half_even :: "rat \<Rightarrow> int" where
  "round_half_even x =
     (let f = \<lfloor>x\<rfloor>; r = x - of_int f
      in if r < 1 / 2 then f else if 1 / 2 < r then f + 1 else if even f then f else f + 1)"

definition round64 :: "rat \<Rightarrow> rat" where
  "round64 x =
     (if x = 0 then 0
      else let a = abs x;
               e0 = bitlen (fst (quotient_of a)) - bitlen (snd (quotient_of a));
               e = (if pow2 e0 \<le> a then e0 else e0 - 1);
               shift = max (e - 52) (- 1074)
           in sgn x * (of_int (round_half_even (a / pow2 shift)) * pow2 shift))"

definition float64 :: "rat \<Rightarrow> num" where
  "float64 x =
     (let y = round64 x
      in if 2 ^ 1024 \<le> y then Inf else if y \<le> - (2 ^ 1024) then NegInf else Val y)"

subsection \<open>Columns\<close>

fun mask_select :: "'a list \<Rightarrow> bool list \<Rightarrow> 'a list" where
  \<comment> \<open>\<^verbatim>\<open>xs[mask]\<close>: the rows where the mask is true, in order\<close>
  "mask_select (x # xs) (b # bs) = (if b then x # mask_select xs bs else mask_select xs bs)"
| "mask_select xs bs = []"

fun loc_assign :: "bool list \<Rightarrow> 'a list \<Rightarrow> 'a list \<Rightarrow> 'a list" where
  \<comment> \<open>\<^verbatim>\<open>col.loc[mask] = values\<close>, the values being those of the masked rows in order\<close>
  "loc_assign (True # m) (v # vs) (c # col) = v # loc_assign m vs col"
| "loc_assign (b # m) vs (c # col) = c # loc_assign m vs col"
| "loc_assign m vs col = col"

definition isna :: "'a option \<Rightarrow> bool" where
  "isna c = (c = None)"

definition minus_ts :: "timestamp option \<Rightarrow> timestamp option \<Rightarrow> int option" where
  \<comment> \<open>the difference of two timestamps in nanoseconds; NaT where either is NaT\<close>
  "minus_ts a b = (case (a, b) of (Some x, Some y) \<Rightarrow> Some (x - y) | _ \<Rightarrow> None)"

definition total_seconds :: "int option \<Rightarrow> rat option" where
  \<comment> \<open>\<^verbatim>\<open>.dt.total_seconds()\<close>: the nanoseconds as a float64, divided by \<open>10 ^ 9\<close>\<close>
  "total_seconds d = map_option (\<lambda>ns. round64 (round64 (of_int ns) / 10 ^ 9)) d"

section \<open>Loading\<close>

text \<open>
  The two library calls of \<^verbatim>\<open>load_data\<close> are parameters: \<open>read_csv\<close> gives, for a path,
  the rows of the file or the exception raised, and \<open>to_datetime\<close> is
  \<^verbatim>\<open>pandas.to_datetime(column, format='ISO8601', errors='coerce')\<close>, which gives the converted
  column (NaT for a cell it cannot convert) or raises. A converted column is a pair: whether
  its type carries a time zone (\<^verbatim>\<open>datetime64[ns, UTC]\<close>) or not (\<^verbatim>\<open>datetime64[ns]\<close>), and
  its cells. The column of NaT that the handler of the loop assigns carries no time zone.
  Subtracting a column without time zone from one with time zone, or the other way round,
  raises \<open>TypeError\<close>, whatever the cells are.
\<close>

type_synonym dt_column = "bool \<times> timestamp option list"

definition convert_column ::
  "(string option list \<Rightarrow> exn + dt_column) \<Rightarrow> string \<Rightarrow> string option list
     \<Rightarrow> event list \<Rightarrow> dt_column \<times> event list" where
  \<comment> \<open>the body of the loop over \<^verbatim>\<open>date_columns\<close>\<close>
  "convert_column to_datetime col cells out =
     (case to_datetime cells of
        Inr ts \<Rightarrow> (ts, out)
      | Inl e \<Rightarrow> ((False, replicate (length cells) None),
                 out @ [Print (''Error converting '' @ col @ '': '' @ exn_message e)]))"

definition cycle_time_column :: "dt_column \<Rightarrow> dt_column \<Rightarrow> exn + rat option list" where
  \<comment> \<open>lines 21 to 23\<close>
  "cycle_time_column created completed =
     (let cycle = replicate (length (snd created)) None;
          mask = map2 (\<lambda>c d. \<not> (isna c \<or> isna d)) (snd created) (snd completed)
      in if fst completed \<noteq> fst created
         then Inl (Exn TypeError ''Cannot subtract tz-naive and tz-aware datetime-like objects'')
         else
           (let delta = map2 minus_ts (mask_select (snd completed) mask)
                          (mask_select (snd created) mask)
            in Inr (loc_assign mask
                      (map (\<lambda>d. map_option (\<lambda>s. round64 (s / (24 * 60 * 60))) (total_seconds d))
                         delta)
                      cycle)))"

definition load_data ::
  "(string \<Rightarrow> exn + 'id csv_row list) \<Rightarrow> (string option list \<Rightarrow> exn + dt_column)
     \<Rightarrow> string \<Rightarrow> event list \<Rightarrow> exn + 'id issue list \<times> event list" where
  "load_data read_csv to_datetime file_path out =
     (case read_csv file_path of
        Inl e \<Rightarrow>
          if exn_class e = FileNotFoundError
          then Inr ([], out @ [Error (''File not found: '' @ file_path)])
          else Inl e
      | Inr rows \<Rightarrow>
          let (created, out) = convert_column to_datetime ''Created'' (map csv_Created rows) out;
              (completed, out) =
                 convert_column to_datetime ''Completed'' (map csv_Completed rows) out;
              (updated, out) = convert_column to_datetime ''Updated'' (map csv_Updated rows) out;
              (started, out) = convert_column to_datetime ''Started'' (map csv_Started rows) out
          in case cycle_time_column created completed of
               Inl e \<Rightarrow> Inl e
             | Inr cycle \<Rightarrow>
                 Inr (map (\<lambda>i. \<lparr>ID = csv_ID (rows ! i), Assignee = csv_Assignee (rows ! i),
                                  Labels = csv_Labels (rows ! i), Status = csv_Status (rows ! i),
                                  Priority = csv_Priority (rows ! i),
                                  Estimate = csv_Estimate (rows ! i),
                                  Cycle_Name = csv_Cycle_Name (rows ! i),
                                  Created = snd created ! i, Completed = snd completed ! i,
                                  Updated = snd updated ! i, Started = snd started ! i,
                                  Cycle_Time = cycle ! i, Task_Type = None\<rparr>)
                        [0..<length rows],
                      out))"

text \<open>
  A converter for examples: it converts the one layout \<^verbatim>\<open>YYYY-MM-DDTHH:MM:SSZ\<close> and
  gives NaT for every other text, for a date that does not exist and for an instant that
  does not fit the 64 bits of a timestamp. It never raises. Its column carries the time
  zone UTC when it has converted a cell, and none when every cell is NaT.
\<close>

definition digit :: "char \<Rightarrow> int option" where
  "digit c = map_of (zip ''0123456789'' [0, 1, 2, 3, 4, 5, 6, 7, 8, 9]) c"

fun digits :: "string \<Rightarrow> int \<Rightarrow> int option" where
  "digits [] acc = Some acc"
| "digits (c # cs) acc = (case digit c of None \<Rightarrow> None | Some d \<Rightarrow> digits cs (10 * acc + d))"

definition days_in_month :: "int \<Rightarrow> int \<Rightarrow> int" where
  "days_in_month y m =
     (if m = 2 then (if y mod 4 = 0 \<and> (y mod 100 \<noteq> 0 \<or> y mod 400 = 0) then 29 else 28)
      else if m \<in> {4, 6, 9, 11} then 30 else 31)"

definition days_from_civil :: "int \<Rightarrow> int \<Rightarrow> int \<Rightarrow> int" where
  \<comment> \<open>the days from 1970-01-01 to the date \<open>y-m-d\<close> of the Gregorian calendar\<close>
  "days_from_civil y m d =
     (let y' = (if m \<le> 2 then y - 1 else y);
          era = y' div 400;
          yoe = y' - era * 400;
          doy = (153 * (if m > 2 then m - 3 else m + 9) + 2) div 5 + d - 1;
          doe = yoe * 365 + yoe div 4 - yoe div 100 + doy
      in era * 146097 + doe - 719468)"

definition parse_utc :: "string \<Rightarrow> timestamp option" where
  "parse_utc s =
     (if length s = 20 \<and> s ! 4 = CHR ''-'' \<and> s ! 7 = CHR ''-'' \<and> s ! 10 = CHR ''T''
         \<and> s ! 13 = CHR '':'' \<and> s ! 16 = CHR '':'' \<and> s ! 19 = CHR ''Z''
      then
        (case (digits (take 4 s) 0, digits (take 2 (drop 5 s)) 0, digits (take 2 (drop 8 s)) 0,
               digits (take 2 (drop 11 s)) 0, digits (take 2 (drop 14 s)) 0,
               digits (take 2 (drop 17 s)) 0) of
           (Some y, Some m, Some d, Some hh, Some mm, Some ss) \<Rightarrow>
             if 1 \<le> m \<and> m \<le> 12 \<and> 1 \<le> d \<and> d \<le> days_in_month y m
                \<and> hh < 24 \<and> mm < 60 \<and> ss < 60
             then
               (let ns = (((days_from_civil y m d * 24 + hh) * 60 + mm) * 60 + ss) * 10 ^ 9
                in if - (2 ^ 63) < ns \<and> ns < 2 ^ 63 then Some ns else None)
             else None
         | _ \<Rightarrow> None)
      else None)"

definition to_datetime_utc :: "string option list \<Rightarrow> exn + dt_column" where
  "to_datetime_utc cells =
     (let ts = map (\<lambda>c. case c of None \<Rightarrow> None | Some s \<Rightarrow> parse_utc s) cells
      in Inr (list_ex (\<lambda>t. t \<noteq> None) ts, ts))"

text \<open>
  A date column after the loop of \<^verbatim>\<open>load_data\<close>: what \<open>to_datetime\<close> gives, and NaT in
  every row when it raises. A cell is valid when this holds a timestamp for it.
\<close>

definition converted ::
  "(string option list \<Rightarrow> exn + dt_column) \<Rightarrow> string option list \<Rightarrow> dt_column" where
  "converted to_datetime cells =
     (case to_datetime cells of
        Inr ts \<Rightarrow> ts
      | Inl e \<Rightarrow> (False, replicate (length cells) None))"

text \<open>Rows for examples: every cell empty, to be filled in by record update.\<close>

definition blank_row :: "nat csv_row" where
  "blank_row =
     \<lparr>csv_ID = 0, csv_Assignee = None, csv_Labels = None, csv_Status = None,
      csv_Priority = None, csv_Estimate = None, csv_Cycle_Name = None, csv_Created = None,
      csv_Completed = None, csv_Updated = None, csv_Started = None\<rparr>"

definition blank_issue :: "nat issue" where
  "blank_issue =
     \<lparr>ID = 0, Assignee = None, Labels = None, Status = None, Priority = None,
      Estimate = None, Cycle_Name = None, Created = None, Completed = None, Updated = None,
      Started = None, Cycle_Time = None, Task_Type = None\<rparr>"

definition done_in :: "string \<Rightarrow> nat issue" where
  "done_in sprint = blank_issue\<lparr>Status := Some ''Done'', Cycle_Name := Some sprint\<rparr>"

definition with_priority :: "string \<Rightarrow> string \<Rightarrow> nat issue" where
  "with_priority p st = blank_issue\<lparr>Status := Some st, Priority := Some p\<rparr>"

section \<open>Cleaning\<close>

fun duplicated_from :: "'k list \<Rightarrow> 'k list \<Rightarrow> bool list" where
  "duplicated_from seen [] = []"
| "duplicated_from seen (k # ks) = (k \<in> set seen) # duplicated_from (k # seen) ks"

definition duplicated :: "'k list \<Rightarrow> bool list" where
  \<comment> \<open>\<^verbatim>\<open>duplicated(keep='first')\<close>: true for a key that an earlier row has\<close>
  "duplicated keys = duplicated_from [] keys"

definition drop_duplicates :: "'id issue list \<Rightarrow> 'id issue list" where
  \<comment> \<open>\<^verbatim>\<open>df.drop_duplicates(subset='ID', keep='first')\<close>\<close>
  "drop_duplicates df = mask_select df (map Not (duplicated (map ID df)))"

text \<open>
  \<^verbatim>\<open>read_csv\<close> gives a column without any text the type float64, and the accessor
  \<^verbatim>\<open>.str\<close> of line 35 raises \<open>AttributeError\<close> on such a column. The frame that
  \<^verbatim>\<open>preprocess_data\<close> receives is the one \<^verbatim>\<open>load_data\<close> returns, so its label column is of
  that type exactly when it has rows and no row has label text; \<^verbatim>\<open>drop_duplicates\<close> keeps
  the type of the column.
\<close>

definition preprocess_data :: "'id issue list \<Rightarrow> exn + 'id issue list" where
  "preprocess_data df =
     (let labels_are_text = (df = [] \<or> list_ex (\<lambda>r. Labels r \<noteq> None) df);
          df = drop_duplicates df
      in if \<not> labels_are_text
         then Inl (Exn AttributeError ''Can only use .str accessor with string values!'')
         else Inr (mask_select df (map (\<lambda>r. \<not> str_contains ''sub-task'' (Labels r)) df)))"

section \<open>Aggregation\<close>

text \<open>
  A series indexed by labels (the result of \<^verbatim>\<open>groupby\<close> or \<^verbatim>\<open>value_counts\<close>) is a finite
  map from label to value; the order in which \<^verbatim>\<open>pandas\<close> lists the labels is not modelled.
  An aggregator that assigns to a column of its argument changes the caller's frame, so
  every aggregator returns the frame as it leaves it, next to its figure (or, for the
  one that can raise on a frame the dashboard gives it, next to its figure or exception).
\<close>

definition add_to_group ::
  "('r \<Rightarrow> 'k option) \<Rightarrow> 'r \<Rightarrow> ('k \<Rightarrow> 'r list option) \<Rightarrow> ('k \<Rightarrow> 'r list option)" where
  "add_to_group key r g =
     (case key r of
        None \<Rightarrow> g
      | Some k \<Rightarrow> g(k \<mapsto> (case g k of None \<Rightarrow> [r] | Some rs \<Rightarrow> rs @ [r])))"

definition groupby :: "('r \<Rightarrow> 'k option) \<Rightarrow> 'r list \<Rightarrow> ('k \<Rightarrow> 'r list option)" where
  \<comment> \<open>\<^verbatim>\<open>df.groupby(col)\<close>: the rows of each key in order; rows with a missing key are left out\<close>
  "groupby key df = fold (add_to_group key) df Map.empty"

definition groupby_size :: "('r \<Rightarrow> 'k option) \<Rightarrow> 'r list \<Rightarrow> ('k \<Rightarrow> nat option)" where
  \<comment> \<open>\<^verbatim>\<open>df.groupby(col).size()\<close>\<close>
  "groupby_size key df = (\<lambda>k. map_option length (groupby key df k))"

definition value_counts :: "'k option list \<Rightarrow> ('k \<Rightarrow> nat option)" where
  \<comment> \<open>\<^verbatim>\<open>col.value_counts()\<close>: missing values are not counted\<close>
  "value_counts col = (\<lambda>k. map_option length (groupby (\<lambda>c. c) col k))"

definition series_sum :: "rat option list \<Rightarrow> rat" where
  \<comment> \<open>\<^verbatim>\<open>col.sum()\<close>, which skips NaN\<close>
  "series_sum col = sum_list (map (\<lambda>c. case c of None \<Rightarrow> 0 | Some v \<Rightarrow> v) col)"

definition series_mean :: "rat option list \<Rightarrow> num" where
  \<comment> \<open>\<^verbatim>\<open>col.mean()\<close>: the mean of the values present, NaN when there is none\<close>
  "series_mean col =
     (let vs = [v. Some v \<leftarrow> col]
      in if vs = [] then NaN else Val (sum_list vs / of_nat (length vs)))"

definition fillna :: "'a \<Rightarrow> 'a option \<Rightarrow> 'a option" where
  "fillna v c = (case c of None \<Rightarrow> Some v | Some x \<Rightarrow> Some x)"

definition replace_values :: "(string \<times> string) list \<Rightarrow> string option \<Rightarrow> string option" where
  \<comment> \<open>\<^verbatim>\<open>col.replace({old: new, ...})\<close> on one cell: a cell equal to a key gets its value\<close>
  "replace_values table cell =
     (case cell of
        None \<Rightarrow> None
      | Some v \<Rightarrow> (case map_of table v of None \<Rightarrow> Some v | Some w \<Rightarrow> Some w))"

definition reindex :: "string list \<Rightarrow> nat \<Rightarrow> (string \<Rightarrow> nat option) \<Rightarrow> (string \<times> nat) list" where
  \<comment> \<open>\<^verbatim>\<open>series.reindex(order, fill_value=v)\<close>\<close>
  "reindex order fill_value series =
     map (\<lambda>k. (k, case series k of None \<Rightarrow> fill_value | Some v \<Rightarrow> v)) order"

definition true_divide :: "nat \<Rightarrow> nat \<Rightarrow> num" where
  \<comment> \<open>the quotient of two counts (int64) in float64\<close>
  "true_divide a b =
     (if b = 0 then (if a = 0 then NaN else Inf)
      else float64 (round64 (of_nat a) / round64 (of_nat b)))"

definition series_div :: "('k \<Rightarrow> nat option) \<Rightarrow> ('k \<Rightarrow> nat option) \<Rightarrow> ('k \<Rightarrow> num option)" where
  \<comment> \<open>\<^verbatim>\<open>s1 / s2\<close>: the labels of both series; NaN for a label that one of them lacks\<close>
  "series_div s1 s2 =
     (\<lambda>k. case (s1 k, s2 k) of
             (None, None) \<Rightarrow> None
           | (Some a, Some b) \<Rightarrow> Some (true_divide a b)
           | _ \<Rightarrow> Some NaN)"

definition times :: "rat \<Rightarrow> num \<Rightarrow> num" where
  \<comment> \<open>\<^verbatim>\<open>x * c\<close> for a finite float64 \<open>c\<close>\<close>
  "times c x =
     (case x of
        Val v \<Rightarrow> float64 (v * c)
      | Inf \<Rightarrow> (if c = 0 then NaN else if 0 < c then Inf else NegInf)
      | NegInf \<Rightarrow> (if c = 0 then NaN else if 0 < c then NegInf else Inf)
      | NaN \<Rightarrow> NaN)"

definition sprint_velocity_trend :: "'id issue list \<Rightarrow> 'id issue list \<times> figure" where
  "sprint_velocity_trend df =
     (let df = map (\<lambda>r. r\<lparr>Cycle_Name :=
                            replace_values [(''FEB-S-3'', ''MAR-S-1''), (''FEB-S-4'', ''MAR-S-2'')]
                              (Cycle_Name r)\<rparr>) df;
          sprint_order = [''JAN-S-1'', ''JAN-S-2'', ''FEB-S-1'', ''FEB-S-2'', ''MAR-S-1'', ''MAR-S-2''];
          completed_tasks =
            reindex sprint_order 0
              (groupby_size Cycle_Name (mask_select df (map (\<lambda>r. Status r = Some ''Done'') df)))
      in (df, Figure Bar ''Sprint Velocity (Tasks Completed per Sprint)''
                (Reindexed completed_tasks)))"

definition bandwidth_efficiency :: "'id issue list \<Rightarrow> 'id issue list \<times> figure" where
  "bandwidth_efficiency df =
     (let df = map (\<lambda>r. r\<lparr>Estimate := fillna 0 (Estimate r)\<rparr>) df;
          actual_efficiency = series_sum (map Estimate df) / 5;
          predicted_efficiency = 12
      in (df, Figure Bar ''Bandwidth Efficiency: Actual vs Predicted''
                (Rows [(''Predicted Efficiency'', predicted_efficiency),
                       (''Actual Efficiency'', actual_efficiency)])))"

function replace_from :: "string \<Rightarrow> string \<Rightarrow> string \<Rightarrow> string" where
  "replace_from old new [] = []"
| "replace_from old new (c # cs) =
     (if old \<noteq> [] \<and> startswith (c # cs) old
      then new @ replace_from old new (drop (length old) (c # cs))
      else c # replace_from old new cs)"
  by pat_completeness auto
termination
  by (relation "measure (\<lambda>(old, new, s). length s)") auto

definition replace :: "string \<Rightarrow> string \<Rightarrow> string \<Rightarrow> string" where
  \<comment> \<open>\<^verbatim>\<open>s.replace(old, new)\<close>\<close>
  "replace old new s =
     (if old = [] then new @ concat (map (\<lambda>c. c # new) s) else replace_from old new s)"

definition whitespace :: "string list" where
  \<comment> \<open>the characters that \<^verbatim>\<open>str.strip\<close> removes, in UTF-8\<close>
  "whitespace =
     map (\<lambda>c. [c])
       [CHR 0x09, CHR 0x0A, CHR 0x0B, CHR 0x0C, CHR 0x0D, CHR 0x1C, CHR 0x1D, CHR 0x1E,
        CHR 0x1F, CHR 0x20]
     @ [[CHR 0xC2, CHR 0x85], [CHR 0xC2, CHR 0xA0], [CHR 0xE1, CHR 0x9A, CHR 0x80]]
     @ map (\<lambda>c. [CHR 0xE2, CHR 0x80, c])
         [CHR 0x80, CHR 0x81, CHR 0x82, CHR 0x83, CHR 0x84, CHR 0x85, CHR 0x86, CHR 0x87,
          CHR 0x88, CHR 0x89, CHR 0x8A, CHR 0xA8, CHR 0xA9, CHR 0xAF]
     @ [[CHR 0xE2, CHR 0x81, CHR 0x9F], [CHR 0xE3, CHR 0x80, CHR 0x80]]"

function strip_leading :: "string list \<Rightarrow> string \<Rightarrow> string" where
  "strip_leading ws s =
     (case find (\<lambda>w. w \<noteq> [] \<and> startswith s w) ws of
        None \<Rightarrow> s
      | Some w \<Rightarrow> strip_leading ws (drop (length w) s))"
  by pat_completeness auto
termination
proof (relation "measure (\<lambda>(ws, s). length s)")
  show "wf (measure (\<lambda>(ws, s). length s))" by simp
next
  fix ws :: "string list" and s w :: string
  assume "find (\<lambda>w. w \<noteq> [] \<and> startswith s w) ws = Some w"
  then have w: "w \<noteq> []" "startswith s w"
    by (auto simp: find_Some_iff)
  have "startswith t p \<Longrightarrow> p \<noteq> [] \<Longrightarrow> t \<noteq> []" for t p
    by (cases t; cases p) simp_all
  with w have "s \<noteq> []" by blast
  with w show "((ws, drop (length w) s), (ws, s)) \<in> measure (\<lambda>(ws, s). length s)"
    by simp
qed

definition strip :: "string \<Rightarrow> string" where
  \<comment> \<open>\<^verbatim>\<open>s.strip()\<close>\<close>
  "strip s = rev (strip_leading (map rev whitespace) (rev (strip_leading whitespace s)))"

definition clean_name :: "string \<Rightarrow> string" where
  "clean_name name = strip (replace ''@urbanpiper.com'' [] (lower name))"

text \<open>
  On a frame without rows the mask of line 102 is not a column of truth values, the
  selection has no columns, and line 105 raises \<open>KeyError\<close>.
\<close>

definition bandwidth_efficiency_per_person ::
  "'id issue list \<Rightarrow> 'id issue list \<times> (exn + figure)" where
  "bandwidth_efficiency_per_person df =
     (let df_copy = df;
          allowed_people = [''gagan'', ''ganesh'', ''akshay''];
          df_copy = map (\<lambda>r. r\<lparr>Assignee :=
                                 Some (clean_name (case fillna [] (Assignee r) of
                                                     Some a \<Rightarrow> a | None \<Rightarrow> []))\<rparr>) df_copy;
          df_filtered =
            mask_select df_copy
              (map (\<lambda>r. list_ex (\<lambda>person. py_in person (str (Assignee r))) allowed_people)
                 df_copy);
          df_filtered = map (\<lambda>r. r\<lparr>Estimate := fillna 0 (Estimate r)\<rparr>) df_filtered;
          person_efficiency =
            (\<lambda>k. map_option (\<lambda>rs. series_sum (map Estimate rs) / 5)
                   (groupby Assignee df_filtered k));
          available_weeks = [(''ganesh'', 4), (''gagan'', 12), (''akshay'', 12)];
          predicted_weeks =
            (\<lambda>person.
               let clean_person = clean_name person;
                   matched_person = find (\<lambda>k. py_in k clean_person) (map fst available_weeks)
               in case matched_person of
                    None \<Rightarrow> 12
                  | Some k \<Rightarrow> (case map_of available_weeks k of None \<Rightarrow> 12 | Some w \<Rightarrow> w))
      in if df = [] then (df, Inl (Exn KeyError ''Estimate''))
         else (df, Inr (Figure Bar ''Bandwidth Efficiency Per Person: Actual vs Predicted''
                          (Grouped (\<lambda>person. map_option
                                               (\<lambda>actual. (predicted_weeks person, actual))
                                               (person_efficiency person))))))"

definition task_completion_efficiency :: "'id issue list \<Rightarrow> 'id issue list \<times> figure" where
  "task_completion_efficiency df =
     (let avg_cycle_time =
            (\<lambda>k. map_option (\<lambda>rs. series_mean (map Cycle_Time rs)) (groupby Cycle_Name df k))
      in (df, Figure Bar ''Task Completion Efficiency (Average Cycle Time per Sprint)''
                (Values avg_cycle_time)))"

definition priority_completion :: "'id issue list \<Rightarrow> (string \<Rightarrow> num option)" where
  \<comment> \<open>line 166\<close>
  "priority_completion df =
     (\<lambda>k. map_option (times 100)
            (series_div
               (groupby_size Priority (mask_select df (map (\<lambda>r. Status r = Some ''Done'') df)))
               (groupby_size Priority df) k))"

definition priority_vs_completion :: "'id issue list \<Rightarrow> 'id issue list \<times> figure" where
  "priority_vs_completion df =
     (df, Figure Bar ''Completion Rate by Priority'' (Values (priority_completion df)))"

definition services :: "string list" where
  "services =
     [''api'', ''app'', ''atlas-web'', ''aurelia'', ''editor'', ''frodo'', ''luna'',
      ''meraki-sdk'', ''web'', ''payment-svc'']"

definition task_type_split_by_service ::
  "'id issue list \<Rightarrow> event list \<Rightarrow> 'id issue list \<times> event list" where
  "task_type_split_by_service df out =
     (let df = map (\<lambda>r. r\<lparr>Task_Type := Some (get_task_type (Labels r))\<rparr>) df
      in (df,
          fold (\<lambda>service out.
                  let service_df =
                        mask_select df (map (\<lambda>r. str_contains service (Labels r)) df)
                  in if service_df \<noteq> [] then
                       (let task_type_counts = value_counts (map Task_Type service_df)
                        in if \<not> list_all isna (map Task_Type service_df) then
                             out @ [Plotly_chart
                                      (Figure Pie (''Task Type Split for '' @ upper service)
                                         (Counts task_type_counts))]
                           else out)
                     else out)
            services out))"

definition task_distribution_by_type :: "'id issue list \<Rightarrow> 'id issue list \<times> figure" where
  "task_distribution_by_type df =
     (let df = map (\<lambda>r. r\<lparr>Task_Type := Some (get_task_type_dist (Labels r))\<rparr>) df;
          task_type_counts = value_counts (map Task_Type df)
      in (df, Figure Pie ''Task Distribution Across Task Types'' (Counts task_type_counts)))"

section \<open>The dashboard\<close>

definition rocket :: string where
  "rocket = [CHR 0xF0, CHR 0x9F, CHR 0x9A, CHR 0x80]"

definition bar_chart :: string where
  "bar_chart = [CHR 0xF0, CHR 0x9F, CHR 0x93, CHR 0x8A]"

definition create_dashboard ::
  "(string \<Rightarrow> exn + 'id csv_row list) \<Rightarrow> (string option list \<Rightarrow> exn + dt_column)
     \<Rightarrow> exn + event list" where
  "create_dashboard read_csv to_datetime =
     (let out = [Title (''Direct Ordering Squad : Q1 2025 Insights '' @ rocket)];
          file_path = ''./direct-ordering-squad-Q1-2025.csv''
      in case load_data read_csv to_datetime file_path out of
           Inl e \<Rightarrow> Inl e
         | Inr (df, out) \<Rightarrow>
             if df = [] then
               Inr (out @ [Warning
                 ''No data available to display. Please check the file path or data format.''])
             else
               (case preprocess_data df of
                  Inl e \<Rightarrow> Inl e
                | Inr df \<Rightarrow>
                    let assignee_counts = value_counts (map Assignee df);
                        out = out @ [Plotly_chart
                                (Figure Pie ''Task Distribution Across Team''
                                   (Counts assignee_counts))];
                        (df, fig_task_type_distribution) = task_distribution_by_type df;
                        out = out @ [Plotly_chart fig_task_type_distribution];
                        out = out @ [Columns 2];
                        priority_counts = value_counts (map Priority df);
                        out = out @ [Plotly_chart
                                (Figure Pie ''Task Distribution Across Priorities''
                                   (Counts priority_counts))];
                        out = out @ [Header (bar_chart
                                @ '' Bandwidth Efficiency Per Person: Actual vs Predicted'')];
                        (df, efficiency_per_person) = bandwidth_efficiency_per_person df
                    in case efficiency_per_person of
                         Inl e \<Rightarrow> Inl e
                       | Inr fig_efficiency_per_person \<Rightarrow>
                           let out = out @ [Plotly_chart fig_efficiency_per_person];
                               out = out @ [Header (bar_chart @ '' Task Type Split by Service'')];
                               (df, out) = task_type_split_by_service df out
                           in Inr out))"

section \<open>Facts about text\<close>

lemma startswith_iff: "startswith s p \<longleftrightarrow> (\<exists>w. s = p @ w)"
  by (induction s p rule: startswith.induct) auto

lemma py_in_iff: "py_in pat s \<longleftrightarrow> (\<exists>u w. s = u @ pat @ w)"
proof (induction s)
  case Nil
  then show ?case by auto
next
  case (Cons c cs)
  show ?case
  proof
    assume "py_in pat (c # cs)"
    then consider "startswith (c # cs) pat" | "py_in pat cs" by auto
    then show "\<exists>u w. c # cs = u @ pat @ w"
    proof cases
      case 1
      then obtain w where "c # cs = pat @ w" by (auto simp: startswith_iff)
      then have "c # cs = [] @ pat @ w" by simp
      then show ?thesis by blast
    next
      case 2
      then obtain u w where "cs = u @ pat @ w" using Cons.IH by auto
      then have "c # cs = (c # u) @ pat @ w" by simp
      then show ?thesis by blast
    qed
  next
    assume "\<exists>u w. c # cs = u @ pat @ w"
    then obtain u w where uw: "c # cs = u @ pat @ w" by blast
    show "py_in pat (c # cs)"
    proof (cases u)
      case Nil
      with uw have "startswith (c # cs) pat" by (auto simp: startswith_iff)
      then show ?thesis by simp
    next
      case (Cons a u')
      with uw have "cs = u' @ pat @ w" by simp
      then have "py_in pat cs" using Cons.IH by blast
      then show ?thesis by simp
    qed
  qed
qed

lemma map_eq_append3:
  assumes "map f s = a @ p @ b"
  shows "\<exists>u v w. s = u @ v @ w \<and> map f v = p"
proof -
  from assms obtain u r where 1: "s = u @ r" "a = map f u" "p @ b = map f r"
    unfolding map_eq_append_conv by blast
  from 1(3) have "map f r = p @ b" by simp
  then obtain v w where "r = v @ w" "p = map f v" "b = map f w"
    unfolding map_eq_append_conv by blast
  with 1 show ?thesis by blast
qed

lemma py_in_lower_iff: "py_in (lower pat) (lower s) \<longleftrightarrow> ci_contains pat s"
proof
  assume "py_in (lower pat) (lower s)"
  then obtain a b where "map lower_char s = a @ map lower_char pat @ b"
    by (auto simp: py_in_iff lower_def)
  from map_eq_append3 [OF this] show "ci_contains pat s"
    unfolding ci_contains_def by blast
next
  assume "ci_contains pat s"
  then obtain u v w where "s = u @ v @ w" "map lower_char v = map lower_char pat"
    unfolding ci_contains_def by blast
  then have "lower s = lower u @ lower pat @ lower w" by (simp add: lower_def)
  then show "py_in (lower pat) (lower s)" unfolding py_in_iff by blast
qed

lemmas case_tables = lower_def lower_char_def upper_def upper_char_def
  ascii_uppercase_def ascii_lowercase_def

lemma lower_patterns:
  "lower ''bug'' = ''bug''"
  "lower ''confirmed-bug'' = ''confirmed-bug''"
  "lower ''service-request'' = ''service-request''"
  "lower ''infra-related'' = ''infra-related''"
  "lower ''sub-task'' = ''sub-task''"
  by (simp_all add: case_tables)

lemma py_in_nan:
  "\<not> py_in ''bug'' ''nan''"
  "\<not> py_in ''confirmed-bug'' ''nan''"
  "\<not> py_in ''service-request'' ''nan''"
  "\<not> py_in ''infra-related'' ''nan''"
  by simp_all

lemma lower_nan: "lower ''nan'' = ''nan''"
  by (simp add: case_tables)

section \<open>Claims about the classifier\<close>

text \<open>
  C1. Every label cell gets one of the four task types, by the first rule that matches the
  label text up to case: \<open>bug\<close> or \<open>confirmed-bug\<close> gives Bug, else
  \<open>service-request\<close> gives Service Request, else \<open>infra-related\<close> gives Infrastructure,
  else Feature/Enhancement. The classifier is a total function, and a missing label cell
  falls through to Feature/Enhancement.
\<close>

theorem get_task_type_first_match:
  "get_task_type labels =
     (if ci_contains ''bug'' (str labels) \<or> ci_contains ''confirmed-bug'' (str labels)
        then ''Bug''
      else if ci_contains ''service-request'' (str labels) then ''Service Request''
      else if ci_contains ''infra-related'' (str labels) then ''Infrastructure''
      else ''Feature/Enhancement'')
   \<and> get_task_type labels \<in>
       {''Bug'', ''Service Request'', ''Infrastructure'', ''Feature/Enhancement''}
   \<and> get_task_type None = ''Feature/Enhancement''"
proof -
  have rule: "get_task_type labels =
     (if ci_contains ''bug'' (str labels) \<or> ci_contains ''confirmed-bug'' (str labels)
        then ''Bug''
      else if ci_contains ''service-request'' (str labels) then ''Service Request''
      else if ci_contains ''infra-related'' (str labels) then ''Infrastructure''
      else ''Feature/Enhancement'')"
    using py_in_lower_iff [of "''bug''" "str labels"]
      py_in_lower_iff [of "''confirmed-bug''" "str labels"]
      py_in_lower_iff [of "''service-request''" "str labels"]
      py_in_lower_iff [of "''infra-related''" "str labels"]
    unfolding lower_patterns get_task_type_def Let_def by presburger
  have range: "get_task_type labels \<in>
       {''Bug'', ''Service Request'', ''Infrastructure'', ''Feature/Enhancement''}"
    unfolding get_task_type_def Let_def by simp
  have absent: "get_task_type None = ''Feature/Enhancement''"
    unfolding get_task_type_def Let_def str_def option.case lower_nan
    using py_in_nan by presburger
  from rule range absent show ?thesis by blast
qed

theorem get_task_type_first_match_witness:
  "ci_contains ''service-request'' ''Service-Request, infra-related''
   \<and> get_task_type (Some ''Service-Request, infra-related'') = ''Service Request''"
proof -
  have a: "get_task_type (Some ''Service-Request, infra-related'') = ''Service Request''"
    by (simp add: get_task_type_def str_def case_tables)
  have "''Service Request'' \<noteq> ''Bug''" "''Service Request'' \<noteq> ''Infrastructure''"
    "''Service Request'' \<noteq> ''Feature/Enhancement''"
    by simp_all
  with a get_task_type_first_match [of "Some ''Service-Request, infra-related''"]
  have "ci_contains ''service-request'' (str (Some ''Service-Request, infra-related''))"
    by (metis (full_types))
  then show ?thesis using a by (simp add: str_def)
qed

text \<open>
  C9. The two definitions of the classifier agree on every label cell. Both are functions
  of the cell alone: neither reads nor writes anything else.
\<close>

theorem get_task_type_call_sites_agree:
  "get_task_type_dist labels = get_task_type labels"
  unfolding get_task_type_dist_def get_task_type_def by (rule refl)

section \<open>Facts about columns, cleaning and loading\<close>

lemma mask_select_zip: "mask_select xs bs = map fst (filter snd (zip xs bs))"
  by (induction xs bs rule: mask_select.induct) auto

lemma mask_select_map: "mask_select xs (map P xs) = filter P xs"
  by (induction xs) auto

lemma mask_select_nth:
  assumes "length bs = length xs"
  shows "mask_select xs bs = map (nth xs) (filter (nth bs) [0..<length xs])"
proof -
  have "zip xs bs = map (\<lambda>i. (xs ! i, bs ! i)) [0..<length xs]"
    using assms by (intro nth_equalityI) auto
  then show ?thesis
    unfolding mask_select_zip by (simp add: filter_map comp_def)
qed

lemma length_duplicated_from: "length (duplicated_from seen ks) = length ks"
  by (induction ks arbitrary: seen) auto

lemma duplicated_from_nth:
  "i < length ks \<Longrightarrow> duplicated_from seen ks ! i = (ks ! i \<in> set seen \<union> set (take i ks))"
proof (induction ks arbitrary: seen i)
  case Nil
  then show ?case by simp
next
  case (Cons k ks)
  show ?case
  proof (cases i)
    case 0
    then show ?thesis by simp
  next
    case (Suc j)
    with Cons.prems have "j < length ks" by simp
    from Cons.IH [OF this, of "k # seen"] Suc show ?thesis by auto
  qed
qed

lemma drop_duplicates_rows:
  "drop_duplicates df =
     map (nth df) (filter (\<lambda>i. ID (df ! i) \<notin> ID ` set (take i df)) [0..<length df])"
proof -
  have "filter (nth (map Not (duplicated (map ID df)))) [0..<length df] =
        filter (\<lambda>i. ID (df ! i) \<notin> ID ` set (take i df)) [0..<length df]"
    by (rule filter_cong)
      (auto simp: duplicated_def length_duplicated_from duplicated_from_nth take_map)
  then show ?thesis
    unfolding drop_duplicates_def
    by (simp add: mask_select_nth duplicated_def length_duplicated_from)
qed

lemma dedup_from_filter:
  "filter (\<lambda>r. ID r = k) (mask_select df (map Not (duplicated_from seen (map ID df)))) =
     (if k \<in> set seen then [] else take 1 (filter (\<lambda>r. ID r = k) df))"
proof (induction df arbitrary: seen)
  case Nil
  then show ?case by simp
next
  case (Cons r df)
  show ?case using Cons.IH [of "ID r # seen"] by auto
qed

lemma dedup_from_distinct:
  "distinct (map ID (mask_select df (map Not (duplicated_from seen (map ID df)))))
   \<and> set (map ID (mask_select df (map Not (duplicated_from seen (map ID df))))) \<inter> set seen = {}"
proof (induction df arbitrary: seen)
  case Nil
  then show ?case by simp
next
  case (Cons r df)
  show ?case using Cons.IH [of "ID r # seen"] by auto
qed

lemma preprocess_data_returns:
  "preprocess_data df = Inr out \<longleftrightarrow>
     (df = [] \<or> (\<exists>r\<in>set df. Labels r \<noteq> None))
     \<and> out = filter (\<lambda>r. \<not> str_contains ''sub-task'' (Labels r)) (drop_duplicates df)"
  by (auto simp: preprocess_data_def Let_def mask_select_map list_ex_iff)

lemma preprocess_data_raises:
  "df \<noteq> [] \<Longrightarrow> \<forall>r\<in>set df. Labels r = None \<Longrightarrow>
   preprocess_data df = Inl (Exn AttributeError ''Can only use .str accessor with string values!'')"
  by (simp add: preprocess_data_def Let_def list_ex_iff)

lemma re_match_at_iff:
  "re_match_at pat s \<longleftrightarrow>
     (\<exists>vs w. s = concat vs @ w \<and> list_all2 (\<lambda>v p. v \<in> set (ignorecase_variants p)) vs pat)"
proof (induction pat arbitrary: s)
  case Nil
  then show ?case by simp
next
  case (Cons p ps)
  show ?case
  proof
    assume "re_match_at (p # ps) s"
    then obtain v where v: "v \<in> set (ignorecase_variants p)" "startswith s v"
        "re_match_at ps (drop (length v) s)"
      by (auto simp: list_ex_iff)
    from v(2) obtain t where t: "s = v @ t" by (auto simp: startswith_iff)
    with v(3) obtain vs w where "t = concat vs @ w"
        "list_all2 (\<lambda>v p. v \<in> set (ignorecase_variants p)) vs ps"
      using Cons.IH by auto
    with v(1) t have "s = concat (v # vs) @ w"
        "list_all2 (\<lambda>v p. v \<in> set (ignorecase_variants p)) (v # vs) (p # ps)"
      by simp_all
    then show "\<exists>vs w. s = concat vs @ w
        \<and> list_all2 (\<lambda>v p. v \<in> set (ignorecase_variants p)) vs (p # ps)"
      by blast
  next
    assume "\<exists>vs w. s = concat vs @ w
        \<and> list_all2 (\<lambda>v p. v \<in> set (ignorecase_variants p)) vs (p # ps)"
    then obtain vs w where s: "s = concat vs @ w"
        and all: "list_all2 (\<lambda>v p. v \<in> set (ignorecase_variants p)) vs (p # ps)"
      by blast
    from all obtain v vs' where vs: "vs = v # vs'" "v \<in> set (ignorecase_variants p)"
        "list_all2 (\<lambda>v p. v \<in> set (ignorecase_variants p)) vs' ps"
      by (auto simp: list_all2_Cons2)
    from s vs(1) have sv: "s = v @ (concat vs' @ w)" by simp
    then have "startswith s v" by (auto simp: startswith_iff)
    moreover from sv vs(3) have "re_match_at ps (drop (length v) s)"
      using Cons.IH by auto
    ultimately show "re_match_at (p # ps) s"
      using vs(2) by (auto simp: list_ex_iff)
  qed
qed

lemma re_search_iff:
  "re_search pat s \<longleftrightarrow>
     (\<exists>u vs w. s = u @ concat vs @ w
        \<and> list_all2 (\<lambda>v p. v \<in> set (ignorecase_variants p)) vs pat)"
proof (induction s)
  case Nil
  show ?case by (auto simp: re_match_at_iff)
next
  case (Cons c cs)
  show ?case
  proof
    assume "re_search pat (c # cs)"
    then consider "re_match_at pat (c # cs)" | "re_search pat cs" by auto
    then show "\<exists>u vs w. c # cs = u @ concat vs @ w
        \<and> list_all2 (\<lambda>v p. v \<in> set (ignorecase_variants p)) vs pat"
    proof cases
      case 1
      then obtain vs w where "c # cs = [] @ concat vs @ w"
          "list_all2 (\<lambda>v p. v \<in> set (ignorecase_variants p)) vs pat"
        by (auto simp: re_match_at_iff)
      then show ?thesis by blast
    next
      case 2
      then obtain u vs w where "cs = u @ concat vs @ w"
          "list_all2 (\<lambda>v p. v \<in> set (ignorecase_variants p)) vs pat"
        using Cons.IH by auto
      then have "c # cs = (c # u) @ concat vs @ w"
          "list_all2 (\<lambda>v p. v \<in> set (ignorecase_variants p)) vs pat"
        by simp_all
      then show ?thesis by blast
    qed
  next
    assume "\<exists>u vs w. c # cs = u @ concat vs @ w
        \<and> list_all2 (\<lambda>v p. v \<in> set (ignorecase_variants p)) vs pat"
    then obtain u vs w where s: "c # cs = u @ concat vs @ w"
        and all: "list_all2 (\<lambda>v p. v \<in> set (ignorecase_variants p)) vs pat"
      by blast
    show "re_search pat (c # cs)"
    proof (cases u)
      case Nil
      with s all have "re_match_at pat (c # cs)" by (auto simp: re_match_at_iff)
      then show ?thesis by simp
    next
      case (Cons a u')
      with s have "cs = u' @ concat vs @ w" by simp
      with all have "re_search pat cs" using Cons.IH by blast
      then show ?thesis by simp
    qed
  qed
qed

lemma ignorecase_fold_variants:
  "lower_char p \<noteq> CHR ''i'' \<Longrightarrow> ignorecase_variants p = fold_variants p"
  by (simp add: ignorecase_variants_def fold_variants_def Let_def)

lemma re_search_ci_occurs:
  assumes "\<forall>p\<in>set pat. lower_char p \<noteq> CHR ''i''"
  shows "re_search pat s \<longleftrightarrow> ci_occurs pat s"
proof -
  have "list_all2 (\<lambda>v p. v \<in> set (ignorecase_variants p)) vs pat
      \<longleftrightarrow> list_all2 (\<lambda>v p. v \<in> set (fold_variants p)) vs pat" for vs
    using assms
    by (auto elim!: list.rel_mono_strong simp: ignorecase_fold_variants)
  then show ?thesis unfolding re_search_iff ci_occurs_def by simp
qed

lemma str_contains_subtask:
  "str_contains ''sub-task'' cell \<longleftrightarrow> (\<exists>s. cell = Some s \<and> ci_occurs ''sub-task'' s)"
proof -
  have "\<forall>p\<in>set ''sub-task''. lower_char p \<noteq> CHR ''i''"
    by (simp add: case_tables)
  from re_search_ci_occurs [OF this] show ?thesis
    by (cases cell) (simp_all add: str_contains_def)
qed

lemma loc_assign_filter:
  "loc_assign (map P zs) (map h (filter P zs)) (map g zs) =
     map (\<lambda>z. if P z then h z else g z) zs"
  by (induction zs) auto

lemma cycle_time_column_map:
  assumes "length (snd completed) = length (snd created)" and "fst completed = fst created"
  shows "cycle_time_column created completed =
     Inr (map2 (\<lambda>c d. case (c, d) of
                    (Some x, Some y) \<Rightarrow>
                      Some (round64 (round64 (round64 (of_int (y - x)) / 10 ^ 9) / 86400))
                  | _ \<Rightarrow> None) (snd created) (snd completed))"
proof -
  define zs where "zs = zip (snd created) (snd completed)"
  define P where "P = (\<lambda>(c :: timestamp option, d :: timestamp option). \<not> (isna c \<or> isna d))"
  have c: "snd created = map fst zs" and d: "snd completed = map snd zs"
    using assms by (simp_all add: zs_def)
  have mask: "map2 (\<lambda>c d. \<not> (isna c \<or> isna d)) (snd created) (snd completed) = map P zs"
    by (simp add: zs_def P_def)
  have sel: "mask_select (map f zs) (map P zs) = map f (filter P zs)"
    for f :: "timestamp option \<times> timestamp option \<Rightarrow> timestamp option"
    by (induction zs) auto
  have rep: "replicate (length (snd created)) (None :: rat option) = map (\<lambda>_. None) zs"
    by (simp add: c map_replicate_const)
  have "cycle_time_column created completed =
     Inr (loc_assign (map P zs)
       (map (\<lambda>z. map_option (\<lambda>s. round64 (s / (24 * 60 * 60)))
                   (total_seconds (minus_ts (snd z) (fst z))))
          (filter P zs))
       (map (\<lambda>_. None) zs))"
    unfolding cycle_time_column_def Let_def mask rep
    using assms(2)
    by (simp add: c d sel zip_map_map comp_def case_prod_beta zip_same_conv_map)
  also have "\<dots> = Inr (map (\<lambda>z. if P z then map_option (\<lambda>s. round64 (s / (24 * 60 * 60)))
                                       (total_seconds (minus_ts (snd z) (fst z)))
                           else None) zs)"
    by (simp only: loc_assign_filter)
  also have "\<dots> = Inr (map2 (\<lambda>c d. case (c, d) of
                    (Some x, Some y) \<Rightarrow>
                      Some (round64 (round64 (round64 (of_int (y - x)) / 10 ^ 9) / 86400))
                  | _ \<Rightarrow> None) (snd created) (snd completed))"
    unfolding zs_def [symmetric] sum.inject
    by (rule map_cong)
      (auto simp: P_def isna_def total_seconds_def minus_ts_def split: option.splits)
  finally show ?thesis .
qed

lemma cycle_time_column_raises:
  "fst completed \<noteq> fst created \<Longrightarrow>
   cycle_time_column created completed =
     Inl (Exn TypeError ''Cannot subtract tz-naive and tz-aware datetime-like objects'')"
  by (simp add: cycle_time_column_def Let_def)

lemma fst_convert_column: "fst (convert_column td col cells out) = converted td cells"
  by (simp add: convert_column_def converted_def split: sum.splits)

lemma length_converted:
  "\<forall>cells ts. td cells = Inr ts \<longrightarrow> length (snd ts) = length cells \<Longrightarrow>
   length (snd (converted td cells)) = length cells"
  by (simp add: converted_def split: sum.splits)

lemma load_data_columns:
  assumes "read_csv file_path = Inr rows"
  shows "\<exists>out'. load_data read_csv td file_path out =
     (case cycle_time_column (converted td (map csv_Created rows))
             (converted td (map csv_Completed rows)) of
        Inl e \<Rightarrow> Inl e
      | Inr cycle \<Rightarrow>
          Inr (map (\<lambda>i. \<lparr>ID = csv_ID (rows ! i), Assignee = csv_Assignee (rows ! i),
                      Labels = csv_Labels (rows ! i), Status = csv_Status (rows ! i),
                      Priority = csv_Priority (rows ! i),
                      Estimate = csv_Estimate (rows ! i),
                      Cycle_Name = csv_Cycle_Name (rows ! i),
                      Created = snd (converted td (map csv_Created rows)) ! i,
                      Completed = snd (converted td (map csv_Completed rows)) ! i,
                      Updated = snd (converted td (map csv_Updated rows)) ! i,
                      Started = snd (converted td (map csv_Started rows)) ! i,
                      Cycle_Time = cycle ! i,
                      Task_Type = None\<rparr>)
             [0..<length rows], out'))"
proof -
  obtain o1 where 1: "convert_column td ''Created'' (map csv_Created rows) out
      = (converted td (map csv_Created rows), o1)"
    by (metis fst_convert_column prod.collapse)
  obtain o2 where 2: "convert_column td ''Completed'' (map csv_Completed rows) o1
      = (converted td (map csv_Completed rows), o2)"
    by (metis fst_convert_column prod.collapse)
  obtain o3 where 3: "convert_column td ''Updated'' (map csv_Updated rows) o2
      = (converted td (map csv_Updated rows), o3)"
    by (metis fst_convert_column prod.collapse)
  obtain o4 where 4: "convert_column td ''Started'' (map csv_Started rows) o3
      = (converted td (map csv_Started rows), o4)"
    by (metis fst_convert_column prod.collapse)
  show ?thesis
    unfolding load_data_def assms sum.case 1 2 3 4 Let_def prod.case by blast
qed

lemma load_data_tz_differ:
  assumes "read_csv file_path = Inr rows"
    and "fst (converted td (map csv_Completed rows)) \<noteq> fst (converted td (map csv_Created rows))"
  shows "load_data read_csv td file_path out =
     Inl (Exn TypeError ''Cannot subtract tz-naive and tz-aware datetime-like objects'')"
  using load_data_columns [where read_csv = read_csv and file_path = file_path
      and rows = rows and td = td and out = out, OF assms(1)]
  by (auto simp: cycle_time_column_raises [OF assms(2)])

lemma cycle_time_rows:
  assumes wf: "\<forall>cells ts. to_datetime cells = Inr ts \<longrightarrow> length (snd ts) = length cells"
    and rd: "read_csv file_path = Inr rows"
    and tz: "fst (converted to_datetime (map csv_Completed rows))
             = fst (converted to_datetime (map csv_Created rows))"
  shows "\<exists>df out'. load_data read_csv to_datetime file_path out = Inr (df, out')
     \<and> length df = length rows
     \<and> (\<forall>i<length rows.
          Created (df ! i) = snd (converted to_datetime (map csv_Created rows)) ! i
          \<and> Completed (df ! i) = snd (converted to_datetime (map csv_Completed rows)) ! i
          \<and> (Cycle_Time (df ! i) \<noteq> None \<longleftrightarrow>
               Created (df ! i) \<noteq> None \<and> Completed (df ! i) \<noteq> None)
          \<and> (\<forall>c d. Created (df ! i) = Some c \<and> Completed (df ! i) = Some d \<longrightarrow>
               Cycle_Time (df ! i)
                 = Some (round64 (round64 (round64 (of_int (d - c)) / 10 ^ 9) / 86400))))"
proof -
  let ?cr = "converted to_datetime (map csv_Created rows)"
  let ?co = "converted to_datetime (map csv_Completed rows)"
  have len: "length (snd ?cr) = length rows" "length (snd ?co) = length rows"
    using wf by (simp_all add: length_converted)
  from len have cm: "cycle_time_column ?cr ?co =
     Inr (map2 (\<lambda>c d. case (c, d) of
                    (Some x, Some y) \<Rightarrow>
                      Some (round64 (round64 (round64 (of_int (y - x)) / 10 ^ 9) / 86400))
                  | _ \<Rightarrow> None) (snd ?cr) (snd ?co))"
    by (intro cycle_time_column_map tz) simp
  from load_data_columns [where read_csv = read_csv and file_path = file_path
      and rows = rows and td = to_datetime and out = out, OF rd]
  obtain df out' where ld: "load_data read_csv to_datetime file_path out = Inr (df, out')"
    and n: "length df = length rows"
    and cr: "\<And>i. i < length rows \<Longrightarrow> Created (df ! i) = snd ?cr ! i"
    and co: "\<And>i. i < length rows \<Longrightarrow> Completed (df ! i) = snd ?co ! i"
    and cy: "\<And>i. i < length rows \<Longrightarrow> Cycle_Time (df ! i) =
        map2 (\<lambda>c d. case (c, d) of
                    (Some x, Some y) \<Rightarrow>
                      Some (round64 (round64 (round64 (of_int (y - x)) / 10 ^ 9) / 86400))
                  | _ \<Rightarrow> None) (snd ?cr) (snd ?co) ! i"
    unfolding cm sum.case by force
  have cyc: "Cycle_Time (df ! i) =
      (case (Created (df ! i), Completed (df ! i)) of
         (Some x, Some y) \<Rightarrow> Some (round64 (round64 (round64 (of_int (y - x)) / 10 ^ 9) / 86400))
       | _ \<Rightarrow> None)" if "i < length rows" for i
    using that len by (simp add: cy cr co)
  have present: "Cycle_Time (df ! i) \<noteq> None \<longleftrightarrow>
      Created (df ! i) \<noteq> None \<and> Completed (df ! i) \<noteq> None" if "i < length rows" for i
    using cyc [OF that] by (cases "Created (df ! i)"; cases "Completed (df ! i)"; simp)
  have val: "Cycle_Time (df ! i)
      = Some (round64 (round64 (round64 (of_int (d - c)) / 10 ^ 9) / 86400))"
    if "i < length rows" "Created (df ! i) = Some c \<and> Completed (df ! i) = Some d" for i c d
    unfolding cyc [OF that(1)] using that(2) by (simp only: prod.case option.case)
  have "\<forall>i<length rows.
          Created (df ! i) = snd ?cr ! i \<and> Completed (df ! i) = snd ?co ! i
          \<and> (Cycle_Time (df ! i) \<noteq> None \<longleftrightarrow>
               Created (df ! i) \<noteq> None \<and> Completed (df ! i) \<noteq> None)
          \<and> (\<forall>c d. Created (df ! i) = Some c \<and> Completed (df ! i) = Some d \<longrightarrow>
               Cycle_Time (df ! i)
                 = Some (round64 (round64 (round64 (of_int (d - c)) / 10 ^ 9) / 86400)))"
    using cr co present val by blast
  with ld n show ?thesis by blast
qed

lemma parse_utc_examples:
  "parse_utc ''2025-01-01T00:00:00Z'' = Some 1735689600000000000"
  "parse_utc ''2025-01-03T12:00:00Z'' = Some 1735905600000000000"
  "parse_utc ''soon'' = None"
  by code_simp+

lemma round64_examples:
  "round64 (round64 (round64 216000000000000 / 10 ^ 9) / 86400) = 5 / 2"
  "round64 (round64 (round64 28800000000000 / 10 ^ 9) / 86400)
     = 6004799503160661 / 18014398509481984"
  by code_simp+

lemma load_data_example:
  "load_data (\<lambda>p. Inr [blank_row\<lparr>csv_Created := Some ''2025-01-01T00:00:00Z'',
                                   csv_Completed := Some ''2025-01-03T12:00:00Z''\<rparr>])
       to_datetime_utc ''issues.csv'' []
     = Inr ([blank_issue\<lparr>Created := Some 1735689600000000000,
                          Completed := Some 1735905600000000000,
                          Cycle_Time := Some (5 / 2)\<rparr>], [])"
  using round64_examples(1)
  by (simp add: load_data_def convert_column_def to_datetime_utc_def parse_utc_examples
      blank_row_def blank_issue_def cycle_time_column_def isna_def minus_ts_def
      total_seconds_def)

lemma load_data_example_raises:
  "load_data (\<lambda>p. Inr [blank_row\<lparr>csv_Created := Some ''2025-01-01T00:00:00Z'',
                                   csv_Completed := Some ''soon''\<rparr>])
       to_datetime_utc ''issues.csv'' []
     = Inl (Exn TypeError ''Cannot subtract tz-naive and tz-aware datetime-like objects'')"
  by (simp add: load_data_def convert_column_def to_datetime_utc_def parse_utc_examples
      blank_row_def cycle_time_column_def)

section \<open>Claims about loading\<close>

text \<open>
  C2. The claim: every record has a cycle time exactly when both its created and its
  completed timestamp are present and valid, the elapsed seconds divided by 86400, and no
  cycle time otherwise; created 2025-01-01T00:00:00Z and completed 2025-01-03T12:00:00Z
  give 2.5 days. The script departs from it where one of the two columns has a valid cell
  and the other has none: for the one record with created 2025-01-01T00:00:00Z and the
  completed text \<open>soon\<close>, line 23 subtracts a column without time zone from one with time
  zone and \<^verbatim>\<open>load_data\<close> raises \<open>TypeError\<close>, where the claim has the record with no
  cycle time. The example of the claim holds.
\<close>

theorem load_data_tz_mismatch:
  "load_data (\<lambda>p. Inr [blank_row\<lparr>csv_Created := Some ''2025-01-01T00:00:00Z'',
                                   csv_Completed := Some ''soon''\<rparr>])
       to_datetime_utc ''issues.csv'' []
     = Inl (Exn TypeError ''Cannot subtract tz-naive and tz-aware datetime-like objects'')
   \<and> load_data (\<lambda>p. Inr [blank_row\<lparr>csv_Created := Some ''2025-01-01T00:00:00Z'',
                                     csv_Completed := Some ''2025-01-03T12:00:00Z''\<rparr>])
        to_datetime_utc ''issues.csv'' []
      = Inr ([blank_issue\<lparr>Created := Some 1735689600000000000,
                           Completed := Some 1735905600000000000,
                           Cycle_Time := Some (5 / 2)\<rparr>], [])"
  using load_data_example_raises load_data_example by (rule conjI)

lemma preprocess_data_by_id:
  assumes "preprocess_data df = Inr out"
  shows "filter (\<lambda>r. ID r = k) out =
     filter (\<lambda>r. \<not> str_contains ''sub-task'' (Labels r)) (take 1 (filter (\<lambda>r. ID r = k) df))"
proof -
  from assms have "filter (\<lambda>r. ID r = k) out =
      filter (\<lambda>r. \<not> str_contains ''sub-task'' (Labels r))
        (filter (\<lambda>r. ID r = k) (drop_duplicates df))"
    unfolding preprocess_data_returns by (simp add: conj_commute)
  then show ?thesis
    using dedup_from_filter [of k df "[]"]
    by (simp add: drop_duplicates_def duplicated_def)
qed

lemma distinct_preprocess_data:
  assumes "preprocess_data df = Inr out"
  shows "distinct (map ID out)"
  using assms dedup_from_distinct [of df "[]"]
  unfolding preprocess_data_returns drop_duplicates_def duplicated_def
  by (simp add: distinct_map_filter)

lemma subtask_examples:
  "str_contains ''sub-task'' (Some ''Sub-Task, api'')"
  "\<not> str_contains ''sub-task'' (Some ''api, bug'')"
  "\<not> str_contains ''sub-task'' (Some ''api'')"
  "\<not> str_contains ''sub-task'' (Some ''web'')"
  "\<not> str_contains ''sub-task'' None"
  "str_contains ''sub-task'' (Some (long_s @ ''UB-TAS'' @ kelvin_sign))"
  by code_simp+

section \<open>Claims about cleaning\<close>

text \<open>
  C3 (as amended). Where cleaning returns, the identifiers of the output rows are pairwise
  distinct. For every identifier, the deduplication step keeps exactly the first row of
  the input with that identifier and drops the later ones; after the whole of cleaning,
  the rows with that identifier are that first row if its label text has no
  \<open>sub-task\<close> marker, and none otherwise.
\<close>

theorem preprocess_data_first_occurrence:
  assumes "preprocess_data df = Inr out"
  shows "distinct (map ID out)
   \<and> filter (\<lambda>r. ID r = k) (drop_duplicates df) = take 1 (filter (\<lambda>r. ID r = k) df)
   \<and> filter (\<lambda>r. ID r = k) out =
       filter (\<lambda>r. \<not> (\<exists>s. Labels r = Some s \<and> ci_occurs ''sub-task'' s))
         (take 1 (filter (\<lambda>r. ID r = k) df))"
  using distinct_preprocess_data [OF assms] dedup_from_filter [of k df "[]"]
    preprocess_data_by_id [OF assms, of k]
  by (simp add: drop_duplicates_def duplicated_def str_contains_subtask)

text \<open>
  The claim as stated fails: two rows share the identifier 7 and the first one is a
  sub-task, so cleaning keeps neither, whereas the first occurrence is the sub-task row.
\<close>

theorem preprocess_data_first_occurrence_counterexample:
  "preprocess_data [blank_issue\<lparr>ID := 7, Labels := Some ''Sub-Task, api''\<rparr>,
                    blank_issue\<lparr>ID := 7, Labels := Some ''api, bug''\<rparr>] = Inr []
   \<and> take 1 (filter (\<lambda>r. ID r = 7)
        [blank_issue\<lparr>ID := 7, Labels := Some ''Sub-Task, api''\<rparr>,
         blank_issue\<lparr>ID := 7, Labels := Some ''api, bug''\<rparr>])
      = [blank_issue\<lparr>ID := 7, Labels := Some ''Sub-Task, api''\<rparr>]"
  by (simp add: preprocess_data_def drop_duplicates_def duplicated_def subtask_examples
      blank_issue_def)

theorem preprocess_data_first_occurrence_witness:
  "preprocess_data [blank_issue\<lparr>ID := 7, Labels := Some ''api, bug''\<rparr>,
                    blank_issue\<lparr>ID := 8, Labels := None\<rparr>,
                    blank_issue\<lparr>ID := 7, Labels := Some ''web''\<rparr>]
     = Inr [blank_issue\<lparr>ID := 7, Labels := Some ''api, bug''\<rparr>,
            blank_issue\<lparr>ID := 8, Labels := None\<rparr>]
   \<and> filter (\<lambda>r. ID r = 7)
        [blank_issue\<lparr>ID := 7, Labels := Some ''api, bug''\<rparr>,
         blank_issue\<lparr>ID := 8, Labels := None\<rparr>]
      = filter (\<lambda>r. \<not> (\<exists>s. Labels r = Some s \<and> ci_occurs ''sub-task'' s))
          (take 1 (filter (\<lambda>r. ID r = 7)
             [blank_issue\<lparr>ID := 7, Labels := Some ''api, bug''\<rparr>,
              blank_issue\<lparr>ID := 8, Labels := None\<rparr>,
              blank_issue\<lparr>ID := 7, Labels := Some ''web''\<rparr>]))"
proof -
  have run: "preprocess_data [blank_issue\<lparr>ID := 7, Labels := Some ''api, bug''\<rparr>,
                    blank_issue\<lparr>ID := 8, Labels := None\<rparr>,
                    blank_issue\<lparr>ID := 7, Labels := Some ''web''\<rparr>]
     = Inr [blank_issue\<lparr>ID := 7, Labels := Some ''api, bug''\<rparr>,
            blank_issue\<lparr>ID := 8, Labels := None\<rparr>]"
    by (simp add: preprocess_data_def drop_duplicates_def duplicated_def subtask_examples
        blank_issue_def)
  from preprocess_data_first_occurrence [OF run, of 7] run show ?thesis by blast
qed

text \<open>
  C7. The claim: cleaning drops the records whose label text contains \<open>sub-task\<close> up to
  case, and a record with a missing label is not a match and is kept. The script departs
  from it where no record has label text: for the one record with a missing label, the
  label column is of type float64 and line 35 raises \<open>AttributeError\<close>, where the claim
  keeps the record. Next to a record with label text the same record is kept.
\<close>

theorem preprocess_data_no_label_text:
  "preprocess_data [blank_issue\<lparr>ID := 1\<rparr>]
     = Inl (Exn AttributeError ''Can only use .str accessor with string values!'')
   \<and> preprocess_data [blank_issue\<lparr>ID := 1\<rparr>, blank_issue\<lparr>ID := 2, Labels := Some ''api''\<rparr>]
     = Inr [blank_issue\<lparr>ID := 1\<rparr>, blank_issue\<lparr>ID := 2, Labels := Some ''api''\<rparr>]"
  by (simp add: preprocess_data_def drop_duplicates_def duplicated_def subtask_examples
      blank_issue_def)

section \<open>Facts about aggregation\<close>

lemma fold_groupby:
  "fold (add_to_group key) df g k =
    (if filter (\<lambda>r. key r = Some k) df = [] then g k
     else Some ((case g k of None \<Rightarrow> [] | Some rs \<Rightarrow> rs) @ filter (\<lambda>r. key r = Some k) df))"
proof (induction df arbitrary: g)
  case Nil
  then show ?case by simp
next
  case (Cons r df)
  show ?case
    by (simp add: Cons.IH) (simp add: add_to_group_def split: option.splits)
qed

lemma groupby_eq:
  "groupby key df k =
     (if filter (\<lambda>r. key r = Some k) df = [] then None
      else Some (filter (\<lambda>r. key r = Some k) df))"
  unfolding groupby_def fold_groupby by simp

lemma groupby_size_eq:
  "groupby_size key df k =
     (if filter (\<lambda>r. key r = Some k) df = [] then None
      else Some (length (filter (\<lambda>r. key r = Some k) df)))"
  by (simp add: groupby_size_def groupby_eq)

lemma reindex_groupby_size:
  "reindex order 0 (groupby_size key df) =
     map (\<lambda>k. (k, length (filter (\<lambda>r. key r = Some k) df))) order"
  by (simp add: reindex_def groupby_size_eq)

lemma replace_values_sprints:
  "replace_values [(''FEB-S-3'', ''MAR-S-1''), (''FEB-S-4'', ''MAR-S-2'')] c =
     (if c = Some ''FEB-S-3'' then Some ''MAR-S-1''
      else if c = Some ''FEB-S-4'' then Some ''MAR-S-2'' else c)"
  by (cases c) (simp_all add: replace_values_def)

lemma sprint_velocity_counts:
  "snd (sprint_velocity_trend df) =
     Figure Bar ''Sprint Velocity (Tasks Completed per Sprint)''
       (Reindexed
          (map (\<lambda>s. (s, length (filter
                  (\<lambda>r. Status r = Some ''Done''
                        \<and> (if Cycle_Name r = Some ''FEB-S-3'' then Some ''MAR-S-1''
                            else if Cycle_Name r = Some ''FEB-S-4'' then Some ''MAR-S-2''
                            else Cycle_Name r) = Some s) df)))
             [''JAN-S-1'', ''JAN-S-2'', ''FEB-S-1'', ''FEB-S-2'', ''MAR-S-1'', ''MAR-S-2'']))"
  unfolding sprint_velocity_trend_def Let_def snd_conv mask_select_map reindex_groupby_size
    replace_values_sprints
  by (simp add: filter_map comp_def)

lemma done_in_simps:
  "Status (done_in s) = Some ''Done''" "Cycle_Name (done_in s) = Some s"
  by (simp_all add: done_in_def)

lemma sprint_velocity_example:
  "snd (sprint_velocity_trend
          [done_in ''JAN-S-1'', done_in ''FEB-S-3'', done_in ''JAN-S-1'', done_in ''JAN-S-1'',
           done_in ''FEB-S-3'']) =
     Figure Bar ''Sprint Velocity (Tasks Completed per Sprint)''
       (Reindexed [(''JAN-S-1'', 3), (''JAN-S-2'', 0), (''FEB-S-1'', 0), (''FEB-S-2'', 0),
                   (''MAR-S-1'', 2), (''MAR-S-2'', 0)])"
  unfolding sprint_velocity_counts by (simp add: done_in_simps)

lemma times_NaN: "times c NaN = NaN"
  by (simp add: times_def)

lemma priority_completion_eq:
  "priority_completion df p =
     (if filter (\<lambda>r. Priority r = Some p) df = [] then None
      else if filter (\<lambda>r. Priority r = Some p \<and> Status r = Some ''Done'') df = [] then Some NaN
      else Some (times 100
             (true_divide
                (length (filter (\<lambda>r. Priority r = Some p \<and> Status r = Some ''Done'') df))
                (length (filter (\<lambda>r. Priority r = Some p) df)))))"
proof -
  have sub: "filter (\<lambda>r. Priority r = Some p) df = [] \<Longrightarrow>
      filter (\<lambda>r. Priority r = Some p \<and> Status r = Some ''Done'') df = []"
    by (auto simp: filter_empty_conv)
  have comm: "filter (\<lambda>r. Priority r = Some p) (filter (\<lambda>r. Status r = Some ''Done'') df)
      = filter (\<lambda>r. Priority r = Some p \<and> Status r = Some ''Done'') df"
    by (simp add: conj_commute)
  show ?thesis
    unfolding priority_completion_def series_div_def groupby_size_eq mask_select_map comm
    using sub by (simp add: times_NaN)
qed

lemma priority_examples:
  "Priority (with_priority p st) = Some p" "Status (with_priority p st) = Some st"
  by (simp_all add: with_priority_def)

lemma round64_rate_examples:
  "round64 3 = 3" "round64 4 = 4" "round64 1 = 1"
  "round64 (3 / 4) = 3 / 4"
  "round64 75 = 75"
  "round64 (1 / 3) = 6004799503160661 / 18014398509481984"
  "round64 (150119987579016525 / 4503599627370496) = 2345624805922133 / 70368744177664"
  by code_simp+

lemma float_rate_examples:
  "times 100 (true_divide (Suc (Suc (Suc 0))) (Suc (Suc (Suc (Suc 0))))) = Val 75"
  "times 100 (true_divide 1 3) = Val (2345624805922133 / 70368744177664)"
  by (simp_all add: true_divide_def times_def float64_def Let_def round64_rate_examples)

lemma priority_completion_example:
  "priority_completion [with_priority ''P1'' ''Done'', with_priority ''P1'' ''Done'',
                        with_priority ''P1'' ''In Progress'', with_priority ''P1'' ''Done'']
     ''P1'' = Some (Val 75)"
  unfolding priority_completion_eq
  by (simp add: priority_examples float_rate_examples)

lemma priority_completion_failing:
  "priority_completion [with_priority ''P1'' ''Done'', with_priority ''P2'' ''To Do''] ''P2''
     = Some NaN"
  unfolding priority_completion_eq by (simp add: priority_examples)

lemma fillna_0: "fillna (0 :: rat) c = Some (case c of None \<Rightarrow> 0 | Some v \<Rightarrow> v)"
  by (cases c) (simp_all add: fillna_def)

lemma load_data_not_found:
  assumes "read_csv file_path = Inl e" and "exn_class e = FileNotFoundError"
  shows "load_data read_csv to_datetime file_path out =
     Inr ([], out @ [Error (''File not found: '' @ file_path)])"
  using assms by (simp add: load_data_def)

lemma load_data_raises:
  assumes "read_csv file_path = Inl e" and "exn_class e \<noteq> FileNotFoundError"
  shows "load_data read_csv to_datetime file_path out = Inl e"
  using assms by (simp add: load_data_def)

section \<open>Claims about the aggregators\<close>

text \<open>
  C5. Sprint velocity gives, for each of the six sprints JAN-S-1, JAN-S-2, FEB-S-1,
  FEB-S-2, MAR-S-1, MAR-S-2 in this order, the number of rows with status \<open>Done\<close> whose
  sprint name, after FEB-S-3 is renamed to MAR-S-1 and FEB-S-4 to MAR-S-2, is that sprint
  (zero when there is none). Three done rows in JAN-S-1 and two in FEB-S-3 give the counts
  3, 0, 0, 0, 2, 0.
\<close>

theorem sprint_velocity_trend_counts:
  "snd (sprint_velocity_trend df) =
     Figure Bar ''Sprint Velocity (Tasks Completed per Sprint)''
       (Reindexed
          (map (\<lambda>s. (s, length (filter
                  (\<lambda>r. Status r = Some ''Done''
                        \<and> (if Cycle_Name r = Some ''FEB-S-3'' then Some ''MAR-S-1''
                            else if Cycle_Name r = Some ''FEB-S-4'' then Some ''MAR-S-2''
                            else Cycle_Name r) = Some s) df)))
             [''JAN-S-1'', ''JAN-S-2'', ''FEB-S-1'', ''FEB-S-2'', ''MAR-S-1'', ''MAR-S-2'']))
   \<and> snd (sprint_velocity_trend
          [done_in ''JAN-S-1'', done_in ''FEB-S-3'', done_in ''JAN-S-1'', done_in ''JAN-S-1'',
           done_in ''FEB-S-3'']) =
     Figure Bar ''Sprint Velocity (Tasks Completed per Sprint)''
       (Reindexed [(''JAN-S-1'', 3), (''JAN-S-2'', 0), (''FEB-S-1'', 0), (''FEB-S-2'', 0),
                   (''MAR-S-1'', 2), (''MAR-S-2'', 0)])"
  using sprint_velocity_counts [of df] sprint_velocity_example by (rule conjI)

theorem sprint_velocity_trend_counts_witness:
  "snd (sprint_velocity_trend
          [done_in ''FEB-S-4'', with_priority ''P1'' ''Done'', done_in ''MAR-S-2'',
           (done_in ''JAN-S-2'')\<lparr>Status := Some ''In Progress''\<rparr>, done_in ''APR-S-1'']) =
     Figure Bar ''Sprint Velocity (Tasks Completed per Sprint)''
       (Reindexed [(''JAN-S-1'', 0), (''JAN-S-2'', 0), (''FEB-S-1'', 0), (''FEB-S-2'', 0),
                   (''MAR-S-1'', 0), (''MAR-S-2'', 2)])"
  using sprint_velocity_trend_counts
    [of "[done_in ''FEB-S-4'', with_priority ''P1'' ''Done'', done_in ''MAR-S-2'',
          (done_in ''JAN-S-2'')\<lparr>Status := Some ''In Progress''\<rparr>, done_in ''APR-S-1'']"]
  by (simp add: done_in_def with_priority_def blank_issue_def)

text \<open>
  C6. The claim: for every priority value that occurs, the completion rate is the number
  of \<open>Done\<close> records with that priority divided by the number of all records with that
  priority, times 100; four records of priority P1, three of them \<open>Done\<close>, give 75. The
  script departs from it for a priority that occurs without a \<open>Done\<close> record: for the
  records P1 \<open>Done\<close> and P2 \<open>To Do\<close> the rate of P2 is NaN, where the claim has
  0 / 1 * 100 = 0. The example of the claim holds.
\<close>

theorem priority_completion_missing_done:
  "priority_completion [with_priority ''P1'' ''Done'', with_priority ''P2'' ''To Do''] ''P2''
     = Some NaN
   \<and> priority_completion [with_priority ''P1'' ''Done'', with_priority ''P1'' ''Done'',
                          with_priority ''P1'' ''In Progress'', with_priority ''P1'' ''Done'']
       ''P1'' = Some (Val 75)"
  using priority_completion_failing priority_completion_example by (rule conjI)

text \<open>
  C10. For a priority value that at least one row has and no row with status \<open>Done\<close>
  has, the completion rate is NaN, not 0.
\<close>

theorem priority_completion_no_done:
  assumes "filter (\<lambda>r. Priority r = Some p) df \<noteq> []"
    and "filter (\<lambda>r. Priority r = Some p \<and> Status r = Some ''Done'') df = []"
  shows "priority_completion df p = Some NaN \<and> priority_completion df p \<noteq> Some (Val 0)"
  using assms unfolding priority_completion_eq by simp

theorem priority_completion_no_done_witness:
  "priority_completion [with_priority ''P3'' ''In Progress'', with_priority ''P1'' ''Done'',
                        with_priority ''P3'' ''Blocked''] ''P3'' = Some NaN"
proof -
  let ?df = "[with_priority ''P3'' ''In Progress'', with_priority ''P1'' ''Done'',
              with_priority ''P3'' ''Blocked'']"
  have a: "filter (\<lambda>r. Priority r = Some ''P3'') ?df \<noteq> []"
    by (simp add: priority_examples)
  have b: "filter (\<lambda>r. Priority r = Some ''P3'' \<and> Status r = Some ''Done'') ?df = []"
    by (simp add: priority_examples)
  from priority_completion_no_done [OF a b] show ?thesis by simp
qed

text \<open>
  C4 (as amended). Per-person efficiency, cycle-time mean and priority completion rate
  leave the frame they are given as it is. Sprint velocity writes the sprint name of every
  row (FEB-S-3 becomes MAR-S-1, FEB-S-4 becomes MAR-S-2, any other name stays), bandwidth
  efficiency writes the estimate (a missing estimate becomes 0), and type distribution and
  per-service split write the task type of every row; each of them changes no other field,
  and no aggregator adds, drops or reorders rows.
\<close>

theorem aggregators_frame:
  "fst (bandwidth_efficiency_per_person df) = df
   \<and> fst (task_completion_efficiency df) = df
   \<and> fst (priority_vs_completion df) = df
   \<and> fst (sprint_velocity_trend df) =
       map (\<lambda>r. r\<lparr>Cycle_Name := (if Cycle_Name r = Some ''FEB-S-3'' then Some ''MAR-S-1''
                                    else if Cycle_Name r = Some ''FEB-S-4'' then Some ''MAR-S-2''
                                    else Cycle_Name r)\<rparr>) df
   \<and> fst (bandwidth_efficiency df) =
       map (\<lambda>r. r\<lparr>Estimate := Some (case Estimate r of None \<Rightarrow> 0 | Some v \<Rightarrow> v)\<rparr>) df
   \<and> fst (task_distribution_by_type df) =
       map (\<lambda>r. r\<lparr>Task_Type := Some (get_task_type_dist (Labels r))\<rparr>) df
   \<and> fst (task_type_split_by_service df out) =
       map (\<lambda>r. r\<lparr>Task_Type := Some (get_task_type (Labels r))\<rparr>) df"
proof -
  have 1: "fst (bandwidth_efficiency_per_person df) = df"
    by (simp add: bandwidth_efficiency_per_person_def Let_def)
  have 2: "fst (task_completion_efficiency df) = df"
    by (simp add: task_completion_efficiency_def Let_def)
  have 3: "fst (priority_vs_completion df) = df"
    by (simp add: priority_vs_completion_def)
  have 4: "fst (sprint_velocity_trend df) =
       map (\<lambda>r. r\<lparr>Cycle_Name := (if Cycle_Name r = Some ''FEB-S-3'' then Some ''MAR-S-1''
                                    else if Cycle_Name r = Some ''FEB-S-4'' then Some ''MAR-S-2''
                                    else Cycle_Name r)\<rparr>) df"
    unfolding sprint_velocity_trend_def Let_def fst_conv replace_values_sprints ..
  have 5: "fst (bandwidth_efficiency df) =
       map (\<lambda>r. r\<lparr>Estimate := Some (case Estimate r of None \<Rightarrow> 0 | Some v \<Rightarrow> v)\<rparr>) df"
    unfolding bandwidth_efficiency_def Let_def fst_conv fillna_0 ..
  have 6: "fst (task_distribution_by_type df) =
       map (\<lambda>r. r\<lparr>Task_Type := Some (get_task_type_dist (Labels r))\<rparr>) df"
    unfolding task_distribution_by_type_def Let_def fst_conv ..
  have 7: "fst (task_type_split_by_service df out) =
       map (\<lambda>r. r\<lparr>Task_Type := Some (get_task_type (Labels r))\<rparr>) df"
    unfolding task_type_split_by_service_def Let_def fst_conv ..
  from 1 2 3 4 5 6 7 show ?thesis by blast
qed

theorem aggregators_frame_witness:
  "fst (bandwidth_efficiency [blank_issue, blank_issue\<lparr>Estimate := Some 3\<rparr>]) =
     [blank_issue\<lparr>Estimate := Some 0\<rparr>, blank_issue\<lparr>Estimate := Some 3\<rparr>]
   \<and> fst (priority_vs_completion [with_priority ''P1'' ''Done'']) = [with_priority ''P1'' ''Done'']"
  using aggregators_frame [of "[blank_issue, blank_issue\<lparr>Estimate := Some 3\<rparr>]"]
    aggregators_frame [of "[with_priority ''P1'' ''Done'']"]
  by (simp add: blank_issue_def)

text \<open>
  The claim as stated fails: after sprint velocity has run on a frame with a row of sprint
  FEB-S-3, the row of the caller's frame has the sprint MAR-S-1.
\<close>

theorem aggregators_frame_counterexample:
  "fst (sprint_velocity_trend [done_in ''FEB-S-3'']) = [done_in ''MAR-S-1'']
   \<and> [done_in ''MAR-S-1''] \<noteq> [done_in ''FEB-S-3'']"
  by (simp add: sprint_velocity_trend_def Let_def replace_values_def done_in_def blank_issue_def)

section \<open>Claims about the dashboard\<close>

text \<open>
  C8 (as amended). If reading the file raises \<open>FileNotFoundError\<close>, the loader shows an
  error notice and returns the empty frame, and the dashboard shows its title, that notice
  and a warning, and no chart, and returns normally.
\<close>

theorem missing_source:
  assumes "read_csv file_path = Inl e" and "exn_class e = FileNotFoundError"
  shows "load_data read_csv to_datetime file_path out =
           Inr ([], out @ [Error (''File not found: '' @ file_path)])
     \<and> (file_path = ''./direct-ordering-squad-Q1-2025.csv'' \<longrightarrow>
          create_dashboard read_csv to_datetime =
            Inr [Title (''Direct Ordering Squad : Q1 2025 Insights '' @ rocket),
                 Error ''File not found: ./direct-ordering-squad-Q1-2025.csv'',
                 Warning
                  ''No data available to display. Please check the file path or data format.''])"
proof -
  have "create_dashboard read_csv to_datetime =
            Inr [Title (''Direct Ordering Squad : Q1 2025 Insights '' @ rocket),
                 Error ''File not found: ./direct-ordering-squad-Q1-2025.csv'',
                 Warning
                  ''No data available to display. Please check the file path or data format.'']"
    if "file_path = ''./direct-ordering-squad-Q1-2025.csv''"
    unfolding create_dashboard_def Let_def
    using load_data_not_found [where read_csv = read_csv and file_path = file_path
        and e = e and to_datetime = to_datetime, OF assms] that
    by simp
  with load_data_not_found [where read_csv = read_csv and file_path = file_path
        and e = e and to_datetime = to_datetime and out = out, OF assms]
  show ?thesis by blast
qed

theorem missing_source_witness:
  "create_dashboard (\<lambda>p. Inl (Exn FileNotFoundError ''No such file or directory'')
                       :: exn + nat csv_row list) to_datetime_utc =
     Inr [Title (''Direct Ordering Squad : Q1 2025 Insights '' @ rocket),
          Error ''File not found: ./direct-ordering-squad-Q1-2025.csv'',
          Warning ''No data available to display. Please check the file path or data format.'']"
proof -
  let ?rd = "\<lambda>p :: string. (Inl (Exn FileNotFoundError ''No such file or directory'')
                :: exn + nat csv_row list)"
  have a: "?rd ''./direct-ordering-squad-Q1-2025.csv''
      = Inl (Exn FileNotFoundError ''No such file or directory'')" by simp
  have b: "exn_class (Exn FileNotFoundError ''No such file or directory'') = FileNotFoundError"
    by simp
  from missing_source [where read_csv = ?rd and to_datetime = to_datetime_utc
      and file_path = "''./direct-ordering-squad-Q1-2025.csv''"
      and e = "Exn FileNotFoundError ''No such file or directory''", OF a b]
  show ?thesis by blast
qed

text \<open>
  The claim as stated fails for a file that is there and cannot be read: the handler of
  \<^verbatim>\<open>load_data\<close> catches \<open>FileNotFoundError\<close> only, so a \<open>PermissionError\<close> leaves
  \<^verbatim>\<open>create_dashboard\<close> as an exception, with no warning shown.
\<close>

theorem missing_source_counterexample:
  "create_dashboard (\<lambda>p. Inl (Exn PermissionError ''Permission denied'')
                       :: exn + nat csv_row list) to_datetime_utc =
     Inl (Exn PermissionError ''Permission denied'')"
  by (simp add: create_dashboard_def load_data_def)

end
